theory Spec2Isabelle
  imports Complex_Main
begin

section \<open>PIVEN: the estimator wrapper and the base model\<close>

text \<open>
  A shallow embedding of \<^verbatim>\<open>src/piven/wrappers.py\<close> (\<^verbatim>\<open>PivenModelWrapper\<close>) and
  \<^verbatim>\<open>src/piven/models/base.py\<close> (\<^verbatim>\<open>PivenBaseModel\<close>).

  Conventions of the embedding:
  \<^item> a numpy array is its shape together with its elements in row-major (C) order;
  \<^item> array elements are real numbers: the rounding of the float32/float64 arithmetic
    of numpy is not modelled, so the theorems say which entries are read and which
    expression is evaluated, and nothing about the order of the rounded values;
  \<^item> an exception is a value of \<open>error\<close>, returned as \<open>Inl\<close>;
  \<^item> Keras, scikit-learn, \<^verbatim>\<open>json\<close> and the modules \<^verbatim>\<open>piven.metrics.numpy\<close> and
    \<^verbatim>\<open>piven.utils\<close> are not part of the embedded source: their functions are
    parameters of the definitions that call them.
\<close>

subsection \<open>Exceptions\<close>

datatype error =
    NotFittedError               \<comment> \<open>\<^verbatim>\<open>sklearn.exceptions.NotFittedError\<close>, base.py lines 30 and 35\<close>
  | IncompatibleShape "nat list" \<comment> \<open>the \<^verbatim>\<open>ValueError\<close> of wrappers.py line 19, with \<^verbatim>\<open>y.shape\<close>\<close>
  | AttributeError               \<comment> \<open>attribute access on \<^verbatim>\<open>None\<close>, or a missing attribute\<close>
  | IndexError                   \<comment> \<open>numpy: index out of bounds, or too many indices\<close>
  | AxisError                    \<comment> \<open>numpy: axis out of bounds\<close>
  | StackShapeError              \<comment> \<open>numpy: \<^verbatim>\<open>all input arrays must have the same shape\<close>\<close>
  | FileNotFoundError            \<comment> \<open>opening a file in a directory that does not exist\<close>
  | InvalidHyperparameter        \<comment> \<open>the condition of the specification's section 7\<close>
  | ExternalError string         \<comment> \<open>anything a collaborator outside the source raises\<close>

subsection \<open>numpy arrays\<close>

record ndarray =
  shape :: "nat list"
  data :: "real list"

definition wf_array :: "ndarray \<Rightarrow> bool" where
  "wf_array a \<longleftrightarrow> length (data a) = prod_list (shape a)"

text \<open>\<^verbatim>\<open>len(a.shape)\<close>\<close>

definition ndim :: "ndarray \<Rightarrow> nat" where
  "ndim a = length (shape a)"

text \<open>The \<open>i\<close>-th block of \<open>b\<close> consecutive elements.\<close>

definition block :: "nat \<Rightarrow> nat \<Rightarrow> real list \<Rightarrow> real list" where
  "block b i xs = take b (drop (i * b) xs)"

text \<open>
  \<^verbatim>\<open>a[:, j]\<close>: the index needs two axes, and \<open>j\<close> must be inside the second one. The
  result keeps the first axis and every axis after the second.
\<close>

definition take_column :: "ndarray \<Rightarrow> nat \<Rightarrow> error + ndarray" where
  "take_column a j =
     (case shape a of
        n # c # rest \<Rightarrow>
          if j < c
          then Inr \<lparr>shape = n # rest,
                    data = concat (map (\<lambda>i. block (prod_list rest) (i * c + j) (data a)) [0..<n])\<rparr>
          else Inl IndexError
      | _ \<Rightarrow> Inl IndexError)"

text \<open>
  Elementwise arithmetic on arrays of one shape (the operands of \<^verbatim>\<open>predict\<close> are
  slices of the same array, so no broadcasting between arrays takes place), and
  the scalar on the left of \<^verbatim>\<open>1 - a\<close>.
\<close>

definition arr_mult :: "ndarray \<Rightarrow> ndarray \<Rightarrow> ndarray" where
  "arr_mult a b = \<lparr>shape = shape a, data = map2 (*) (data a) (data b)\<rparr>"

definition arr_add :: "ndarray \<Rightarrow> ndarray \<Rightarrow> ndarray" where
  "arr_add a b = \<lparr>shape = shape a, data = map2 (+) (data a) (data b)\<rparr>"

definition scalar_minus :: "real \<Rightarrow> ndarray \<Rightarrow> ndarray" where
  "scalar_minus s a = \<lparr>shape = shape a, data = map (\<lambda>x. s - x) (data a)\<rparr>"

text \<open>\<^verbatim>\<open>a.flatten()\<close>\<close>

definition flatten :: "ndarray \<Rightarrow> ndarray" where
  "flatten a = \<lparr>shape = [prod_list (shape a)], data = data a\<rparr>"

text \<open>\<^verbatim>\<open>a.reshape(-1, 1)\<close>: the free axis takes the whole size of the array.\<close>

definition reshape_col :: "ndarray \<Rightarrow> ndarray" where
  "reshape_col a = \<lparr>shape = [prod_list (shape a), 1], data = data a\<rparr>"

text \<open>
  \<^verbatim>\<open>np.stack((a, b), axis=1)\<close>: both arrays must have the same shape, and the new
  axis 1 must exist in the result, which needs one axis at least in the inputs.
  Along the first axis, the \<open>i\<close>-th entry of the result is the \<open>i\<close>-th entry of \<open>a\<close>
  followed by the \<open>i\<close>-th entry of \<open>b\<close>.
\<close>

definition stack_axis1 :: "ndarray \<Rightarrow> ndarray \<Rightarrow> error + ndarray" where
  "stack_axis1 a b =
     (if shape a \<noteq> shape b then Inl StackShapeError
      else case shape a of
        [] \<Rightarrow> Inl AxisError
      | n # rest \<Rightarrow>
          Inr \<lparr>shape = n # 2 # rest,
               data = concat (map (\<lambda>i. block (prod_list rest) i (data a)
                                      @ block (prod_list rest) i (data b)) [0..<n])\<rparr>)"

subsection \<open>\<^verbatim>\<open>PivenModelWrapper.predict\<close>: the blend\<close>

text \<open>
  The value of \<^verbatim>\<open>predict\<close>: one array, or the triple (point, lower, upper).
\<close>

datatype prediction =
    Point ndarray
  | PointInterval ndarray ndarray ndarray

text \<open>
  Lines 42 to 50 of wrappers.py, on the raw output \<open>yhat\<close> of the Keras model.
\<close>

definition blend :: "ndarray \<Rightarrow> bool \<Rightarrow> error + prediction" where
  "blend yhat return_prediction_intervals =
     (case take_column yhat 0 of Inl e \<Rightarrow> Inl e | Inr y_upper_pred \<Rightarrow>
     (case take_column yhat 1 of Inl e \<Rightarrow> Inl e | Inr y_lower_pred \<Rightarrow>
     (case take_column yhat 2 of Inl e \<Rightarrow> Inl e | Inr y_value_pred \<Rightarrow>
        (let y_out = arr_add (arr_mult y_value_pred y_upper_pred)
                             (arr_mult (scalar_minus 1 y_value_pred) y_lower_pred)
         in if return_prediction_intervals
            then Inr (PointInterval (flatten y_out) (flatten y_lower_pred) (flatten y_upper_pred))
            else Inr (Point (flatten y_out))))))"

text \<open>\<^verbatim>\<open>a[i, j]\<close> of a two-dimensional array, in row-major order.\<close>

definition at2 :: "ndarray \<Rightarrow> nat \<Rightarrow> nat \<Rightarrow> real" where
  "at2 a i j = data a ! (i * (shape a ! 1) + j)"

subsection \<open>Keyword arguments and callables\<close>

datatype pyval = PyNone | PyBool bool | PyInt int | PyFloat real | PyStr string

type_synonym kwargs = "string \<rightharpoonup> pyval"

text \<open>
  A Python callable, as far as the wrapper looks at it: which argument names it
  accepts (Keras's \<^verbatim>\<open>has_arg\<close>), and what calling it with keyword arguments gives.
\<close>

record 'r callable =
  has_arg :: "string \<Rightarrow> bool"
  invoke :: "kwargs \<Rightarrow> error + 'r"

text \<open>
  \<^verbatim>\<open>self.build_fn\<close>: \<^verbatim>\<open>None\<close>, an object that is neither a function nor a method
  (with its \<^verbatim>\<open>__call__\<close>), or a function or method.
\<close>

datatype 'k build_fn =
    BuildNone
  | BuildObject "'k callable"
  | BuildFunction "'k callable"

text \<open>
  The calls that leave the wrapper: to the model builder, and to the Keras model's
  \<^verbatim>\<open>fit\<close> with the target tensor it is handed.
\<close>

datatype call = BuildCall | FitCall ndarray

record 'k wrapper =
  build_fn :: "'k build_fn"
  sk_params :: kwargs
  self_call :: "'k callable"   \<comment> \<open>the wrapper's own \<^verbatim>\<open>__call__\<close>, used when \<^verbatim>\<open>build_fn\<close> is \<^verbatim>\<open>None\<close>\<close>
  keras_model :: "'k option"   \<comment> \<open>\<^verbatim>\<open>self.model\<close>; \<open>None\<close> while the attribute does not exist\<close>
  calls :: "call list"         \<comment> \<open>the calls made so far, oldest first\<close>

text \<open>
  What the wrapper uses of Keras: the argument names of \<^verbatim>\<open>Sequential.fit\<close> and
  \<^verbatim>\<open>Sequential.predict\<close>, and the two methods of a built model. \<^verbatim>\<open>fit\<close> trains
  the model in place, so it gives the model back, also when it raises.
\<close>

record ('k, 'x, 'h) keras =
  fit_has_arg :: "string \<Rightarrow> bool"
  predict_has_arg :: "string \<Rightarrow> bool"
  model_fit :: "'k \<Rightarrow> 'x \<Rightarrow> ndarray \<Rightarrow> kwargs \<Rightarrow> (error + 'h) \<times> 'k"
  model_predict :: "'k \<Rightarrow> 'x \<Rightarrow> kwargs \<Rightarrow> error + ndarray"

text \<open>
  \<^verbatim>\<open>filter_sk_params(fn, override)\<close>, inherited from Keras's \<^verbatim>\<open>BaseWrapper\<close>: the
  entries of \<^verbatim>\<open>sk_params\<close> whose name \<^verbatim>\<open>fn\<close> accepts, updated with \<^verbatim>\<open>override\<close>.
\<close>

definition filter_sk_params :: "kwargs \<Rightarrow> (string \<Rightarrow> bool) \<Rightarrow> kwargs \<Rightarrow> kwargs" where
  "filter_sk_params sk accepts override =
     (\<lambda>name. if accepts name then sk name else None) ++ override"

subsection \<open>\<^verbatim>\<open>PivenModelWrapper.fit\<close>\<close>

text \<open>Lines 13 to 21 of wrappers.py: the check of the shape of \<open>y\<close>.\<close>

definition check_y_shape :: "ndarray \<Rightarrow> error + ndarray" where
  "check_y_shape y =
     (if ndim y = 1 then stack_axis1 (reshape_col y) (reshape_col y)
      else if ndim y = 2 then
        (if last (shape y) = 1 then stack_axis1 y y else Inr y)
      else Inl (IncompatibleShape (shape y)))"

text \<open>
  Lines 22 to 29: the model is built by the wrapper's own \<^verbatim>\<open>__call__\<close> when there
  is no \<^verbatim>\<open>build_fn\<close>, and by \<^verbatim>\<open>build_fn\<close> otherwise, on the entries of
  \<^verbatim>\<open>sk_params\<close> that the called function accepts.
\<close>

definition build_model :: "'k wrapper \<Rightarrow> error + 'k" where
  "build_model w =
     (case build_fn w of
        BuildNone \<Rightarrow>
          invoke (self_call w)
            (filter_sk_params (sk_params w) (has_arg (self_call w)) Map.empty)
      | BuildObject obj \<Rightarrow>
          invoke obj (filter_sk_params (sk_params w) (has_arg obj) Map.empty)
      | BuildFunction f \<Rightarrow>
          invoke f (filter_sk_params (sk_params w) (has_arg f) Map.empty))"

text \<open>
  Lines 13 to 34: check the target, build the model, then fit it on the checked
  target. The keyword arguments of the fit are those of \<^verbatim>\<open>sk_params\<close> that
  \<^verbatim>\<open>Sequential.fit\<close> accepts, updated with the caller's.
\<close>

definition wrapper_fit ::
  "('k, 'x, 'h) keras \<Rightarrow> 'k wrapper \<Rightarrow> 'x \<Rightarrow> ndarray \<Rightarrow> kwargs \<Rightarrow> (error + 'h) \<times> 'k wrapper" where
  "wrapper_fit K w x y kw =
     (case check_y_shape y of
        Inl e \<Rightarrow> (Inl e, w)
      | Inr y' \<Rightarrow>
          (let w1 = w\<lparr>calls := calls w @ [BuildCall]\<rparr>
           in case build_model w of
                Inl e \<Rightarrow> (Inl e, w1)
              | Inr m \<Rightarrow>
                  (let fit_args = filter_sk_params (sk_params w) (fit_has_arg K) Map.empty ++ kw;
                       w2 = w1\<lparr>calls := calls w1 @ [FitCall y']\<rparr>;
                       (r, m') = model_fit K m x y' fit_args
                   in (r, w2\<lparr>keras_model := Some m'\<rparr>))))"

subsection \<open>\<^verbatim>\<open>PivenModelWrapper.predict\<close>\<close>

text \<open>Lines 36 to 50: the raw output of the Keras model, blended.\<close>

definition wrapper_predict ::
  "('k, 'x, 'h) keras \<Rightarrow> 'k wrapper \<Rightarrow> 'x \<Rightarrow> bool \<Rightarrow> kwargs \<Rightarrow> error + prediction" where
  "wrapper_predict K w x return_prediction_intervals kw =
     (let kw' = filter_sk_params (sk_params w) (predict_has_arg K) kw
      in case keras_model w of
           None \<Rightarrow> Inl AttributeError
         | Some m \<Rightarrow>
             (case model_predict K m x kw' of
                Inl e \<Rightarrow> Inl e
              | Inr yhat \<Rightarrow> blend yhat return_prediction_intervals))"

subsection \<open>\<^verbatim>\<open>PivenBaseModel\<close>\<close>

text \<open>
  \<^verbatim>\<open>self.params\<close> and \<^verbatim>\<open>self.model\<close>; the constructor leaves the model \<^verbatim>\<open>None\<close>.
\<close>

record 'm base_model =
  params :: kwargs
  model :: "'m option"

definition init :: "kwargs \<Rightarrow> 'm base_model" where
  "init model_params = \<lparr>params = model_params, model = None\<rparr>"

text \<open>
  The methods of \<^verbatim>\<open>self.model\<close> that the base model calls. \<^verbatim>\<open>fit\<close> trains the model
  in place.
\<close>

record ('m, 'x) inner =
  inner_fit :: "'m \<Rightarrow> 'x \<Rightarrow> ndarray \<Rightarrow> kwargs \<Rightarrow> error + 'm"
  inner_predict :: "'m \<Rightarrow> 'x \<Rightarrow> bool \<Rightarrow> error + prediction"

text \<open>
  Lines 24 to 26. There is no test of \<^verbatim>\<open>self.model\<close>: on \<^verbatim>\<open>None\<close> the attribute
  access \<^verbatim>\<open>self.model.fit\<close> raises \<^verbatim>\<open>AttributeError\<close>.
\<close>

definition base_fit ::
  "('m, 'x) inner \<Rightarrow> 'm base_model \<Rightarrow> 'x \<Rightarrow> ndarray \<Rightarrow> kwargs \<Rightarrow> error + 'm base_model" where
  "base_fit A self x y kw =
     (case model self of
        None \<Rightarrow> Inl AttributeError
      | Some m \<Rightarrow>
          (case inner_fit A m x y kw of
             Inl e \<Rightarrow> Inl e
           | Inr m' \<Rightarrow> Inr (self\<lparr>model := Some m'\<rparr>)))"

text \<open>Lines 28 to 31.\<close>

definition base_predict ::
  "('m, 'x) inner \<Rightarrow> 'm base_model \<Rightarrow> 'x \<Rightarrow> bool \<Rightarrow> error + prediction" where
  "base_predict A self x return_prediction_intervals =
     (case model self of
        None \<Rightarrow> Inl NotFittedError
      | Some m \<Rightarrow> inner_predict A m x return_prediction_intervals)"

text \<open>
  The file system, as far as \<^verbatim>\<open>save\<close> touches it: the directories that exist, and
  the content of each file.
\<close>

record filesystem =
  dirs :: "string set"
  files :: "string \<rightharpoonup> string"

text \<open>
  What \<^verbatim>\<open>save\<close> calls outside the source: \<^verbatim>\<open>json.dump\<close> on the parameters (the
  text it writes), and \<^verbatim>\<open>piven.utils.save_piven_model\<close>, which writes the model
  under the path and may fail.
\<close>

record 'm storage =
  json_dumps :: "kwargs \<Rightarrow> string"
  save_piven_model :: "'m \<Rightarrow> string \<Rightarrow> filesystem \<Rightarrow> error option \<times> filesystem"

text \<open>
  Lines 33 to 39. Opening \<^verbatim>\<open>path/experiment_params.json\<close> for writing fails when
  the directory \<^verbatim>\<open>path\<close> does not exist.
\<close>

definition base_save ::
  "'m storage \<Rightarrow> 'm base_model \<Rightarrow> string \<Rightarrow> filesystem \<Rightarrow> (error + 'm base_model) \<times> filesystem" where
  "base_save S self path fs =
     (case model self of
        None \<Rightarrow> (Inl NotFittedError, fs)
      | Some m \<Rightarrow>
          if path \<notin> dirs fs then (Inl FileNotFoundError, fs)
          else
            (let fs1 = fs\<lparr>files := (files fs)(path @ ''/experiment_params.json''
                                                  \<mapsto> json_dumps S (params self))\<rparr>
             in case save_piven_model S m path fs1 of
                  (Some e, fs2) \<Rightarrow> (Inl e, fs2)
                | (None, fs2) \<Rightarrow> (Inr self, fs2)))"

text \<open>
  The metrics \<^verbatim>\<open>score\<close> imports: \<^verbatim>\<open>piven_loss\<close>, \<^verbatim>\<open>coverage\<close> and \<^verbatim>\<open>pi_width\<close> of
  \<^verbatim>\<open>piven.metrics.numpy\<close>, and scikit-learn's mean absolute and mean squared
  errors. The fifth argument of the loss is \<^verbatim>\<open>lambda_\<close>, the sixth \<^verbatim>\<open>soften\<close>, the
  seventh \<^verbatim>\<open>alpha\<close>.
\<close>

record metrics =
  piven_loss_numpy ::
    "ndarray \<Rightarrow> ndarray \<Rightarrow> ndarray \<Rightarrow> ndarray \<Rightarrow> pyval \<Rightarrow> real \<Rightarrow> real \<Rightarrow> real"
  mae :: "ndarray \<Rightarrow> ndarray \<Rightarrow> real"
  mse :: "ndarray \<Rightarrow> ndarray \<Rightarrow> real"
  coverage :: "ndarray \<Rightarrow> ndarray \<Rightarrow> ndarray \<Rightarrow> real"
  pi_width :: "ndarray \<Rightarrow> ndarray \<Rightarrow> real"

text \<open>\<^verbatim>\<open>d.get(key)\<close>: \<^verbatim>\<open>None\<close> when the key is missing.\<close>

definition dict_get :: "kwargs \<Rightarrow> string \<Rightarrow> pyval" where
  "dict_get d k = (case d k of None \<Rightarrow> PyNone | Some v \<Rightarrow> v)"

text \<open>Lines 71 to 92.\<close>

definition score ::
  "metrics \<Rightarrow> 'm base_model \<Rightarrow> ndarray \<Rightarrow> ndarray \<Rightarrow> ndarray \<Rightarrow> ndarray \<Rightarrow> (string \<rightharpoonup> real)" where
  "score M self y_true y_pred y_pi_low y_pi_high =
     [''loss'' \<mapsto> piven_loss_numpy M y_true y_pred y_pi_low y_pi_high
                     (dict_get (params self) ''lambda_'') 160.0 0.05,
      ''mae'' \<mapsto> mae M y_true y_pred,
      ''rmse'' \<mapsto> sqrt (mse M y_true y_pred),
      ''coverage'' \<mapsto> coverage M y_true y_pi_low y_pi_high,
      ''pi_width'' \<mapsto> pi_width M y_pi_low y_pi_high]"

subsection \<open>Construction of the loss\<close>

text \<open>
  A hyperparameter is a Python float, which may be infinite or not a number.
\<close>

datatype pyfloat = Finite real | PosInf | NegInf | NaN

record loss_config =
  cfg_lambda :: pyfloat
  cfg_soften :: real
  cfg_alpha :: real

text \<open>
  Modelled from the spec: the constructor of the loss (\<^verbatim>\<open>piven.metrics\<close>, which is
  not among the source files), as sections 4.1 and 7 of the specification describe
  it. It takes the three hyperparameters and no batch, and raises
  \<^verbatim>\<open>InvalidHyperparameter\<close> when \<^verbatim>\<open>lambda_\<close> is missing, when \<^verbatim>\<open>alpha\<close> is not
  inside (0,1), or when \<^verbatim>\<open>soften\<close> is not a finite positive number. Otherwise it
  gives the loss, here the hyperparameters the loss closes over.
\<close>

definition piven_loss :: "pyfloat option \<Rightarrow> pyfloat \<Rightarrow> pyfloat \<Rightarrow> error + loss_config" where
  "piven_loss lambda_in soften alpha =
     (case lambda_in of
        None \<Rightarrow> Inl InvalidHyperparameter
      | Some l \<Rightarrow>
          (case alpha of
             Finite a \<Rightarrow>
               if 0 < a \<and> a < 1
               then (case soften of
                       Finite s \<Rightarrow>
                         if 0 < s
                         then Inr \<lparr>cfg_lambda = l, cfg_soften = s, cfg_alpha = a\<rparr>
                         else Inl InvalidHyperparameter
                     | _ \<Rightarrow> Inl InvalidHyperparameter)
               else Inl InvalidHyperparameter
           | _ \<Rightarrow> Inl InvalidHyperparameter))"

subsection \<open>Running the check twice\<close>

text \<open>
  The checked target, fed back through the same check.
\<close>

definition check_twice :: "ndarray \<Rightarrow> error + ndarray" where
  "check_twice y = (case check_y_shape y of Inl e \<Rightarrow> Inl e | Inr y' \<Rightarrow> check_y_shape y')"

subsection \<open>Collaborators for the examples\<close>

text \<open>
  A Keras whose models are trivial: building and fitting succeed and change nothing.
\<close>

definition null_keras :: "(unit, unit, unit) keras" where
  "null_keras =
     \<lparr>fit_has_arg = (\<lambda>name. False), predict_has_arg = (\<lambda>name. False),
      model_fit = (\<lambda>m x y kw. (Inr (), m)),
      model_predict = (\<lambda>m x kw. Inl (ExternalError ''no output''))\<rparr>"

definition fresh_wrapper :: "unit wrapper" where
  "fresh_wrapper =
     \<lparr>build_fn = BuildNone, sk_params = Map.empty,
      self_call = \<lparr>has_arg = (\<lambda>name. False), invoke = (\<lambda>kw. Inr ())\<rparr>,
      keras_model = None, calls = []\<rparr>"

text \<open>A wrapper whose builder raises.\<close>

definition broken_wrapper :: "unit wrapper" where
  "broken_wrapper =
     \<lparr>build_fn = BuildNone, sk_params = Map.empty,
      self_call = \<lparr>has_arg = (\<lambda>name. False),
                   invoke = (\<lambda>kw. Inl (ExternalError ''no model''))\<rparr>,
      keras_model = None, calls = []\<rparr>"

definition no_rows :: ndarray where
  "no_rows = \<lparr>shape = [0], data = []\<rparr>"

definition const_inner :: "(unit, unit) inner" where
  "const_inner =
     \<lparr>inner_fit = (\<lambda>m x y kw. Inr m),
      inner_predict = (\<lambda>m x r. Inr (Point no_rows))\<rparr>"

definition null_storage :: "unit storage" where
  "null_storage =
     \<lparr>json_dumps = (\<lambda>p. ''{}''),
      save_piven_model =
        (\<lambda>m path fs. (None, fs\<lparr>files := (files fs)(path @ ''/model.h5'' \<mapsto> ''model'')\<rparr>))\<rparr>"

definition out_dir :: filesystem where
  "out_dir = \<lparr>dirs = {''out''}, files = Map.empty\<rparr>"

text \<open>
  Two losses that return one of their hyperparameters, to read what \<^verbatim>\<open>score\<close>
  passes, and a model configured with values other than 160.0 and 0.05.
\<close>

definition soften_probe :: metrics where
  "soften_probe =
     \<lparr>piven_loss_numpy = (\<lambda>y_true y_pred y_pi_low y_pi_high lambda_in soften alpha. soften),
      mae = (\<lambda>y_true y_pred. 0), mse = (\<lambda>y_true y_pred. 0),
      coverage = (\<lambda>y_true y_pi_low y_pi_high. 0), pi_width = (\<lambda>y_pi_low y_pi_high. 0)\<rparr>"

definition alpha_probe :: metrics where
  "alpha_probe =
     \<lparr>piven_loss_numpy = (\<lambda>y_true y_pred y_pi_low y_pi_high lambda_in soften alpha. alpha),
      mae = (\<lambda>y_true y_pred. 0), mse = (\<lambda>y_true y_pred. 0),
      coverage = (\<lambda>y_true y_pi_low y_pi_high. 0), pi_width = (\<lambda>y_pi_low y_pi_high. 0)\<rparr>"

definition configured :: "unit base_model" where
  "configured =
     init [''lambda_'' \<mapsto> PyFloat 15, ''soften'' \<mapsto> PyFloat 100, ''alpha'' \<mapsto> PyFloat 0.1]"

subsection \<open>Facts about arrays\<close>

lemma block_one: "k < length xs \<Longrightarrow> block 1 k xs = [xs ! k]"
  by (simp add: block_def take_Suc_conv_app_nth[of 0, simplified] hd_drop_conv_nth
      take_Suc)

lemma concat_singletons: "concat (map (\<lambda>i. [f i]) xs) = map f xs"
  by (induction xs) simp_all

text \<open>
  A column of an array of shape \<open>[n, 3]\<close> is the flat array of its entries.
\<close>

lemma take_column_N3:
  assumes "shape a = [n, 3]" and "wf_array a" and "j < 3"
  shows "take_column a j = Inr \<lparr>shape = [n], data = map (\<lambda>i. at2 a i j) [0..<n]\<rparr>"
proof -
  have len: "length (data a) = n * 3"
    using assms by (simp add: wf_array_def)
  have "\<And>i. i \<in> set [0..<n] \<Longrightarrow> block 1 (i * 3 + j) (data a) = [data a ! (i * 3 + j)]"
  proof -
    fix i assume "i \<in> set [0..<n]"
    then have "i * 3 + j < length (data a)"
      using len assms(3) by simp
    then show "block 1 (i * 3 + j) (data a) = [data a ! (i * 3 + j)]"
      by (rule block_one)
  qed
  then have "map (\<lambda>i. block 1 (i * 3 + j) (data a)) [0..<n]
           = map (\<lambda>i. [data a ! (i * 3 + j)]) [0..<n]"
    by (simp cong: map_cong)
  then have "concat (map (\<lambda>i. block 1 (i * 3 + j) (data a)) [0..<n])
           = map (\<lambda>i. data a ! (i * 3 + j)) [0..<n]"
    by (simp only: concat_singletons)
  then show ?thesis
    using assms by (simp add: take_column_def at2_def)
qed

lemma blend_N3:
  assumes "shape yhat = [n, 3]" and "wf_array yhat"
  shows "blend yhat b =
     (let point = \<lparr>shape = [n],
                   data = map (\<lambda>i. at2 yhat i 2 * at2 yhat i 0
                                   + (1 - at2 yhat i 2) * at2 yhat i 1) [0..<n]\<rparr>;
          lower = \<lparr>shape = [n], data = map (\<lambda>i. at2 yhat i 1) [0..<n]\<rparr>;
          upper = \<lparr>shape = [n], data = map (\<lambda>i. at2 yhat i 0) [0..<n]\<rparr>
      in if b then Inr (PointInterval point lower upper) else Inr (Point point))"
  using take_column_N3[OF assms, of 0] take_column_N3[OF assms, of 1]
    take_column_N3[OF assms, of 2]
  by (simp add: blend_def arr_add_def arr_mult_def scalar_minus_def flatten_def Let_def
      zip_map_map map_zip_map zip_same_conv_map o_def)

text \<open>
  Stacking a single column on itself along axis 1 doubles every entry.
\<close>

lemma map_pairs_nth:
  "map (\<lambda>i. [xs ! i, xs ! i]) [0..<length xs] = map (\<lambda>v. [v, v]) xs"
proof -
  have "map (\<lambda>i. [xs ! i, xs ! i]) [0..<length xs]
      = map (\<lambda>v. [v, v]) (map ((!) xs) [0..<length xs])"
    by (simp only: map_map o_def)
  then show ?thesis
    by (simp only: map_nth)
qed

lemma stack_column:
  assumes "shape a = [n, 1]" and "length (data a) = n"
  shows "stack_axis1 a a =
           Inr \<lparr>shape = [n, 2, 1], data = concat (map (\<lambda>v. [v, v]) (data a))\<rparr>"
proof -
  have "\<And>i. i \<in> set [0..<n] \<Longrightarrow>
          block 1 i (data a) @ block 1 i (data a) = [data a ! i, data a ! i]"
  proof -
    fix i assume "i \<in> set [0..<n]"
    then have "i < length (data a)"
      using assms(2) by simp
    then have "block 1 i (data a) = [data a ! i]"
      by (rule block_one)
    then show "block 1 i (data a) @ block 1 i (data a) = [data a ! i, data a ! i]"
      by (simp only: append.simps)
  qed
  then have "map (\<lambda>i. block 1 i (data a) @ block 1 i (data a)) [0..<n]
           = map (\<lambda>i. [data a ! i, data a ! i]) [0..<n]"
    by (simp cong: map_cong)
  also have "\<dots> = map (\<lambda>v. [v, v]) (data a)"
    using map_pairs_nth[of "data a"] by (simp only: assms(2))
  finally have "concat (map (\<lambda>i. block 1 i (data a) @ block 1 i (data a)) [0..<n])
              = concat (map (\<lambda>v. [v, v]) (data a))"
    by (rule arg_cong)
  then show ?thesis
    using assms(1) by (simp add: stack_axis1_def)
qed

subsection \<open>Facts about the check of the target\<close>

lemma check_flat:
  assumes "shape y = [n]" and "wf_array y"
  shows "check_y_shape y =
           Inr \<lparr>shape = [n, 2, 1], data = concat (map (\<lambda>v. [v, v]) (data y))\<rparr>"
proof -
  have "length (data y) = n"
    using assms by (simp add: wf_array_def)
  then show ?thesis
    using assms(1) stack_column[of "reshape_col y" n]
    by (simp add: check_y_shape_def ndim_def reshape_col_def)
qed

lemma check_single_column:
  assumes "shape y = [n, 1]" and "wf_array y"
  shows "check_y_shape y =
           Inr \<lparr>shape = [n, 2, 1], data = concat (map (\<lambda>v. [v, v]) (data y))\<rparr>"
proof -
  have "length (data y) = n"
    using assms by (simp add: wf_array_def)
  then show ?thesis
    using assms(1) stack_column[of y n] by (simp add: check_y_shape_def ndim_def)
qed

lemma check_two_dim_other:
  assumes "shape y = [n, c]" and "c \<noteq> 1"
  shows "check_y_shape y = Inr y"
  using assms by (simp add: check_y_shape_def ndim_def)

lemma check_rejects:
  "(\<exists>e. check_y_shape y = Inl e) \<longleftrightarrow> ndim y \<noteq> 1 \<and> ndim y \<noteq> 2"
  by (auto simp: check_y_shape_def stack_axis1_def reshape_col_def ndim_def
      split: list.splits)

lemma check_error:
  "check_y_shape y = Inl e \<Longrightarrow> e = IncompatibleShape (shape y)"
  by (auto simp: check_y_shape_def stack_axis1_def reshape_col_def ndim_def
      split: list.splits if_splits)

lemma check_accepts:
  "ndim y = 1 \<or> ndim y = 2 \<Longrightarrow> \<exists>y'. check_y_shape y = Inr y'"
  using check_rejects[of y] by (cases "check_y_shape y") auto

section \<open>The blend\<close>

text \<open>
  Claim C1. On a raw output of shape \<open>[n, 3]\<close>, \<^verbatim>\<open>predict\<close> reads the upper bound
  from column 0, the lower bound from column 1 and the weight \<open>v\<close> from column 2;
  the point estimate is \<open>v * upper + (1 - v) * lower\<close>, entry by entry. With
  intervals requested the result is the triple (point, lower, upper), the lower and
  upper bounds being columns 1 and 0 as they are, neither sorted nor clamped;
  without, it is the point estimate alone.
\<close>

theorem predict_blend_channels:
  assumes "shape yhat = [n, 3]" and "wf_array yhat"
  shows "take_column yhat 0 = Inr \<lparr>shape = [n], data = map (\<lambda>i. at2 yhat i 0) [0..<n]\<rparr>
       \<and> take_column yhat 1 = Inr \<lparr>shape = [n], data = map (\<lambda>i. at2 yhat i 1) [0..<n]\<rparr>
       \<and> take_column yhat 2 = Inr \<lparr>shape = [n], data = map (\<lambda>i. at2 yhat i 2) [0..<n]\<rparr>
       \<and> blend yhat True =
           Inr (PointInterval
                 \<lparr>shape = [n],
                  data = map (\<lambda>i. at2 yhat i 2 * at2 yhat i 0
                                  + (1 - at2 yhat i 2) * at2 yhat i 1) [0..<n]\<rparr>
                 \<lparr>shape = [n], data = map (\<lambda>i. at2 yhat i 1) [0..<n]\<rparr>
                 \<lparr>shape = [n], data = map (\<lambda>i. at2 yhat i 0) [0..<n]\<rparr>)
       \<and> blend yhat False =
           Inr (Point
                 \<lparr>shape = [n],
                  data = map (\<lambda>i. at2 yhat i 2 * at2 yhat i 0
                                  + (1 - at2 yhat i 2) * at2 yhat i 1) [0..<n]\<rparr>)"
  using take_column_N3[OF assms, of 0] take_column_N3[OF assms, of 1]
    take_column_N3[OF assms, of 2] blend_N3[OF assms, of True] blend_N3[OF assms, of False]
  by (simp add: Let_def)

text \<open>
  Two rows, the second with its bounds inverted (upper 1, lower 4): they come back
  in the same order.
\<close>

theorem predict_blend_channels_witness:
  "shape \<lparr>shape = [2, 3], data = [5, 1, 1/2, 1, 4, 1/4]\<rparr> = [2, 3]
   \<and> wf_array \<lparr>shape = [2, 3], data = [5, 1, 1/2, 1, 4, 1/4]\<rparr>
   \<and> blend \<lparr>shape = [2, 3], data = [5, 1, 1/2, 1, 4, 1/4]\<rparr> True =
       Inr (PointInterval \<lparr>shape = [2], data = [3, 13/4]\<rparr>
                          \<lparr>shape = [2], data = [1, 4]\<rparr>
                          \<lparr>shape = [2], data = [5, 1]\<rparr>)
   \<and> blend \<lparr>shape = [2, 3], data = [5, 1, 1/2, 1, 4, 1/4]\<rparr> False =
       Inr (Point \<lparr>shape = [2], data = [3, 13/4]\<rparr>)"
proof -
  have s: "shape \<lparr>shape = [2, 3], data = [5, 1, 1/2, 1, 4, 1/4]\<rparr> = [2, 3]"
    by simp
  have w: "wf_array \<lparr>shape = [2, 3], data = [5, 1, 1/2, 1, 4, 1/4]\<rparr>"
    by (simp add: wf_array_def)
  have u: "[0..<2] = [0, 1]"
    by (simp add: upt_rec)
  show ?thesis
    using predict_blend_channels[OF s w] s w by (simp add: at2_def u)
qed

section \<open>The check of the target in \<^verbatim>\<open>fit\<close>\<close>

text \<open>
  Claim C3, as amended. The check of \<^verbatim>\<open>fit\<close> maps a flat target of length \<open>n\<close>,
  and a single-column target of shape \<open>[n, 1]\<close>, to the pair (target, target)
  stacked along axis 1, an array of shape \<open>[n, 2, 1]\<close> in which every entry of the
  target stands twice. It passes a two-column target through unchanged, and with
  it every other two-dimensional target whose last axis is not 1. It rejects with
  \<^verbatim>\<open>IncompatibleShape\<close> the targets whose number of dimensions is neither 1 nor 2.
\<close>

theorem check_y_shape_cases:
  "(shape y = [n] \<and> wf_array y \<longrightarrow>
      check_y_shape y = Inr \<lparr>shape = [n, 2, 1], data = concat (map (\<lambda>v. [v, v]) (data y))\<rparr>)
   \<and> (shape y = [n, 1] \<and> wf_array y \<longrightarrow>
      check_y_shape y = Inr \<lparr>shape = [n, 2, 1], data = concat (map (\<lambda>v. [v, v]) (data y))\<rparr>)
   \<and> (shape y = [n, 2] \<longrightarrow> check_y_shape y = Inr y)
   \<and> (shape y = [n, c] \<and> c \<noteq> 1 \<longrightarrow> check_y_shape y = Inr y)
   \<and> (ndim y \<noteq> 1 \<and> ndim y \<noteq> 2 \<longrightarrow> check_y_shape y = Inl (IncompatibleShape (shape y)))"
  using check_flat[of y n] check_single_column[of y n] check_two_dim_other[of y n c]
    check_two_dim_other[of y n 2]
  by (simp add: check_y_shape_def)

theorem check_y_shape_cases_witness:
  "check_y_shape \<lparr>shape = [2], data = [3, 4]\<rparr> = Inr \<lparr>shape = [2, 2, 1], data = [3, 3, 4, 4]\<rparr>
   \<and> check_y_shape \<lparr>shape = [2, 1], data = [3, 4]\<rparr> = Inr \<lparr>shape = [2, 2, 1], data = [3, 3, 4, 4]\<rparr>
   \<and> check_y_shape \<lparr>shape = [2, 2], data = [3, 3, 4, 4]\<rparr> = Inr \<lparr>shape = [2, 2], data = [3, 3, 4, 4]\<rparr>
   \<and> check_y_shape \<lparr>shape = [1, 3], data = [3, 4, 5]\<rparr> = Inr \<lparr>shape = [1, 3], data = [3, 4, 5]\<rparr>
   \<and> check_y_shape \<lparr>shape = [1, 1, 1], data = [3]\<rparr> = Inl (IncompatibleShape [1, 1, 1])"
  using check_y_shape_cases[of "\<lparr>shape = [2], data = [3, 4]\<rparr>" 2 0]
    check_y_shape_cases[of "\<lparr>shape = [2, 1], data = [3, 4]\<rparr>" 2 0]
    check_y_shape_cases[of "\<lparr>shape = [2, 2], data = [3, 3, 4, 4]\<rparr>" 2 2]
    check_y_shape_cases[of "\<lparr>shape = [1, 3], data = [3, 4, 5]\<rparr>" 1 3]
    check_y_shape_cases[of "\<lparr>shape = [1, 1, 1], data = [3]\<rparr>" 0 0]
  by (simp add: wf_array_def ndim_def)

text \<open>
  Claim C3 as stated fails: a target of one row and three columns is neither flat,
  nor single-column, nor two-column, and the check does not reject it.
\<close>

theorem check_y_shape_three_columns_counterexample:
  "check_y_shape \<lparr>shape = [1, 3], data = [1, 2, 3]\<rparr> = Inr \<lparr>shape = [1, 3], data = [1, 2, 3]\<rparr>
   \<and> check_y_shape \<lparr>shape = [1, 3], data = [1, 2, 3]\<rparr> \<noteq> Inl (IncompatibleShape [1, 3])"
  by (simp add: check_y_shape_def ndim_def)

text \<open>
  Claim C4, as amended. The check is a no-op on a two-dimensional target whose
  last axis is not 1, a two-column target in particular: it passes through
  unchanged, so that checking it twice is checking it once. A flat target of
  length \<open>n\<close> (and a single-column one) is not a case of this: the check makes it an
  array of shape \<open>[n, 2, 1]\<close>, which has three dimensions, and the second check
  rejects that array with \<^verbatim>\<open>IncompatibleShape\<close>.
\<close>

theorem check_twice_two_dim:
  "(shape y = [n, c] \<and> c \<noteq> 1 \<longrightarrow> check_y_shape y = Inr y \<and> check_twice y = check_y_shape y)
   \<and> (shape y = [n] \<and> wf_array y \<longrightarrow> check_twice y = Inl (IncompatibleShape [n, 2, 1]))
   \<and> (shape y = [n, 1] \<and> wf_array y \<longrightarrow> check_twice y = Inl (IncompatibleShape [n, 2, 1]))"
  using check_flat[of y n] check_single_column[of y n] check_two_dim_other[of y n c]
  by (auto simp: check_twice_def) (simp_all add: check_y_shape_def ndim_def)

theorem check_twice_two_dim_witness:
  "check_y_shape \<lparr>shape = [2, 2], data = [3, 3, 4, 4]\<rparr> = Inr \<lparr>shape = [2, 2], data = [3, 3, 4, 4]\<rparr>
   \<and> check_twice \<lparr>shape = [2, 2], data = [3, 3, 4, 4]\<rparr> = Inr \<lparr>shape = [2, 2], data = [3, 3, 4, 4]\<rparr>
   \<and> check_twice \<lparr>shape = [3], data = [5, 6, 7]\<rparr> = Inl (IncompatibleShape [3, 2, 1])
   \<and> check_twice \<lparr>shape = [3, 1], data = [5, 6, 7]\<rparr> = Inl (IncompatibleShape [3, 2, 1])"
  using check_twice_two_dim[of "\<lparr>shape = [2, 2], data = [3, 3, 4, 4]\<rparr>" 2 2]
    check_twice_two_dim[of "\<lparr>shape = [3], data = [5, 6, 7]\<rparr>" 3 0]
    check_twice_two_dim[of "\<lparr>shape = [3, 1], data = [5, 6, 7]\<rparr>" 3 0]
  by (simp add: wf_array_def)

text \<open>
  Claim C4 as stated fails: the flat target \<open>[3, 4]\<close> is made an array of shape
  \<open>[2, 2, 1]\<close>, and the check raises on that array instead of returning it.
\<close>

theorem check_twice_flat_counterexample:
  "check_y_shape \<lparr>shape = [2], data = [3, 4]\<rparr> = Inr \<lparr>shape = [2, 2, 1], data = [3, 3, 4, 4]\<rparr>
   \<and> check_y_shape \<lparr>shape = [2, 2, 1], data = [3, 3, 4, 4]\<rparr> = Inl (IncompatibleShape [2, 2, 1])
   \<and> check_twice \<lparr>shape = [2], data = [3, 4]\<rparr> \<noteq> check_y_shape \<lparr>shape = [2], data = [3, 4]\<rparr>"
  by (simp add: check_twice_def check_y_shape_def ndim_def reshape_col_def stack_axis1_def
      block_def upt_rec)

text \<open>
  Claim C5, as amended. The check raises if and only if the number of dimensions
  of the target is neither 1 nor 2, and what it raises is \<^verbatim>\<open>IncompatibleShape\<close>
  with the shape of the target. \<^verbatim>\<open>fit\<close> then stops before the model is built and
  before any tensor is handed on: the wrapper is as it was, no call recorded and
  no model set. A target of 1 or 2 dimensions is never rejected: the builder is
  called, and when it gives a model, that model is fitted on the checked target
  and on nothing else. The checked target is the target itself when it has two
  dimensions and its last axis is not 1 (two columns, three columns), and the
  stacked pair of shape \<open>[n, 2, 1]\<close> when the target is flat or a single column.
\<close>

theorem fit_rejects_before_build:
  "(check_y_shape y = Inl (IncompatibleShape (shape y)) \<longleftrightarrow> ndim y \<noteq> 1 \<and> ndim y \<noteq> 2)
   \<and> (check_y_shape y = Inl e \<longrightarrow> e = IncompatibleShape (shape y))
   \<and> (ndim y \<noteq> 1 \<and> ndim y \<noteq> 2 \<longrightarrow>
        wrapper_fit K w x y kw = (Inl (IncompatibleShape (shape y)), w))
   \<and> (ndim y = 1 \<or> ndim y = 2 \<longrightarrow>
        (\<exists>cs. calls (snd (wrapper_fit K w x y kw)) = calls w @ BuildCall # cs))
   \<and> (check_y_shape y = Inr y' \<and> build_model w = Inl e' \<longrightarrow>
        wrapper_fit K w x y kw = (Inl e', w\<lparr>calls := calls w @ [BuildCall]\<rparr>))
   \<and> (check_y_shape y = Inr y' \<and> build_model w = Inr m \<longrightarrow>
        wrapper_fit K w x y kw =
          (fst (model_fit K m x y'
                  (filter_sk_params (sk_params w) (fit_has_arg K) Map.empty ++ kw)),
           w\<lparr>calls := calls w @ [BuildCall, FitCall y'],
             keras_model :=
               Some (snd (model_fit K m x y'
                            (filter_sk_params (sk_params w) (fit_has_arg K) Map.empty ++ kw)))\<rparr>))
   \<and> (shape y = [n, c] \<and> c \<noteq> 1 \<and> build_model w = Inr m \<longrightarrow>
        calls (snd (wrapper_fit K w x y kw)) = calls w @ [BuildCall, FitCall y])
   \<and> ((shape y = [n] \<or> shape y = [n, 1]) \<and> wf_array y \<and> build_model w = Inr m \<longrightarrow>
        calls (snd (wrapper_fit K w x y kw)) =
          calls w @ [BuildCall,
                     FitCall \<lparr>shape = [n, 2, 1],
                              data = concat (map (\<lambda>v. [v, v]) (data y))\<rparr>])"
proof -
  have handed: "wrapper_fit K w x y kw =
          (fst (model_fit K m x z
                  (filter_sk_params (sk_params w) (fit_has_arg K) Map.empty ++ kw)),
           w\<lparr>calls := calls w @ [BuildCall, FitCall z],
             keras_model :=
               Some (snd (model_fit K m x z
                            (filter_sk_params (sk_params w) (fit_has_arg K) Map.empty ++ kw)))\<rparr>)"
    if "check_y_shape y = Inr z" and "build_model w = Inr m" for z
    using that by (simp add: wrapper_fit_def Let_def split: prod.splits)
  have c1: "check_y_shape y = Inl (IncompatibleShape (shape y)) \<longleftrightarrow> ndim y \<noteq> 1 \<and> ndim y \<noteq> 2"
    using check_rejects[of y] check_error[of y] by blast
  have c2: "check_y_shape y = Inl e \<longrightarrow> e = IncompatibleShape (shape y)"
    using check_error[of y e] by blast
  have c3: "ndim y \<noteq> 1 \<and> ndim y \<noteq> 2 \<longrightarrow>
        wrapper_fit K w x y kw = (Inl (IncompatibleShape (shape y)), w)"
    by (simp add: wrapper_fit_def check_y_shape_def)
  have c4: "ndim y = 1 \<or> ndim y = 2 \<longrightarrow>
        (\<exists>cs. calls (snd (wrapper_fit K w x y kw)) = calls w @ BuildCall # cs)"
  proof
    assume "ndim y = 1 \<or> ndim y = 2"
    then obtain z where "check_y_shape y = Inr z"
      using check_accepts by blast
    then show "\<exists>cs. calls (snd (wrapper_fit K w x y kw)) = calls w @ BuildCall # cs"
      by (auto simp: wrapper_fit_def Let_def split: sum.splits prod.splits)
  qed
  have c5: "check_y_shape y = Inr y' \<and> build_model w = Inl e' \<longrightarrow>
        wrapper_fit K w x y kw = (Inl e', w\<lparr>calls := calls w @ [BuildCall]\<rparr>)"
    by (simp add: wrapper_fit_def Let_def)
  have c6: "check_y_shape y = Inr y' \<and> build_model w = Inr m \<longrightarrow>
        wrapper_fit K w x y kw =
          (fst (model_fit K m x y'
                  (filter_sk_params (sk_params w) (fit_has_arg K) Map.empty ++ kw)),
           w\<lparr>calls := calls w @ [BuildCall, FitCall y'],
             keras_model :=
               Some (snd (model_fit K m x y'
                            (filter_sk_params (sk_params w) (fit_has_arg K) Map.empty ++ kw)))\<rparr>)"
    using handed[of y'] by blast
  have c7: "shape y = [n, c] \<and> c \<noteq> 1 \<and> build_model w = Inr m \<longrightarrow>
        calls (snd (wrapper_fit K w x y kw)) = calls w @ [BuildCall, FitCall y]"
  proof
    assume h: "shape y = [n, c] \<and> c \<noteq> 1 \<and> build_model w = Inr m"
    then have "check_y_shape y = Inr y"
      using check_two_dim_other[of y n c] by simp
    with h show "calls (snd (wrapper_fit K w x y kw)) = calls w @ [BuildCall, FitCall y]"
      using handed[of y] by simp
  qed
  have c8: "(shape y = [n] \<or> shape y = [n, 1]) \<and> wf_array y \<and> build_model w = Inr m \<longrightarrow>
        calls (snd (wrapper_fit K w x y kw)) =
          calls w @ [BuildCall,
                     FitCall \<lparr>shape = [n, 2, 1],
                              data = concat (map (\<lambda>v. [v, v]) (data y))\<rparr>]"
  proof
    assume h: "(shape y = [n] \<or> shape y = [n, 1]) \<and> wf_array y \<and> build_model w = Inr m"
    then have "check_y_shape y =
        Inr \<lparr>shape = [n, 2, 1], data = concat (map (\<lambda>v. [v, v]) (data y))\<rparr>"
      using check_flat[of y n] check_single_column[of y n] by blast
    with h show "calls (snd (wrapper_fit K w x y kw)) =
          calls w @ [BuildCall,
                     FitCall \<lparr>shape = [n, 2, 1],
                              data = concat (map (\<lambda>v. [v, v]) (data y))\<rparr>]"
      using handed[of "\<lparr>shape = [n, 2, 1], data = concat (map (\<lambda>v. [v, v]) (data y))\<rparr>"]
      by simp
  qed
  from c1 c2 c3 c4 c5 c6 c7 c8 show ?thesis
    by blast
qed

text \<open>
  A target of three dimensions and one of none are rejected with the wrapper
  untouched. A target of three columns is handed to the model as it is, a flat
  and a single-column one as the stacked pair; when the builder raises, nothing
  is handed on.
\<close>

theorem fit_rejects_before_build_witness:
  "ndim \<lparr>shape = [1, 1, 1], data = [3]\<rparr> = 3
   \<and> check_y_shape \<lparr>shape = [1, 1, 1], data = [3]\<rparr> = Inl (IncompatibleShape [1, 1, 1])
   \<and> wrapper_fit null_keras fresh_wrapper () \<lparr>shape = [1, 1, 1], data = [3]\<rparr> Map.empty
       = (Inl (IncompatibleShape [1, 1, 1]), fresh_wrapper)
   \<and> wrapper_fit null_keras fresh_wrapper () \<lparr>shape = [], data = [7]\<rparr> Map.empty
       = (Inl (IncompatibleShape []), fresh_wrapper)
   \<and> calls fresh_wrapper = []
   \<and> build_model fresh_wrapper = Inr ()
   \<and> calls (snd (wrapper_fit null_keras fresh_wrapper ()
                    \<lparr>shape = [1, 3], data = [3, 4, 5]\<rparr> Map.empty))
       = [BuildCall, FitCall \<lparr>shape = [1, 3], data = [3, 4, 5]\<rparr>]
   \<and> calls (snd (wrapper_fit null_keras fresh_wrapper ()
                    \<lparr>shape = [2], data = [3, 4]\<rparr> Map.empty))
       = [BuildCall, FitCall \<lparr>shape = [2, 2, 1], data = [3, 3, 4, 4]\<rparr>]
   \<and> calls (snd (wrapper_fit null_keras fresh_wrapper ()
                    \<lparr>shape = [2, 1], data = [3, 4]\<rparr> Map.empty))
       = [BuildCall, FitCall \<lparr>shape = [2, 2, 1], data = [3, 3, 4, 4]\<rparr>]
   \<and> wrapper_fit null_keras fresh_wrapper () \<lparr>shape = [2, 2], data = [3, 3, 4, 4]\<rparr> Map.empty
       = (Inr (),
          fresh_wrapper
            \<lparr>calls := [BuildCall, FitCall \<lparr>shape = [2, 2], data = [3, 3, 4, 4]\<rparr>],
             keras_model := Some ()\<rparr>)
   \<and> build_model broken_wrapper = Inl (ExternalError ''no model'')
   \<and> wrapper_fit null_keras broken_wrapper () \<lparr>shape = [2, 2], data = [3, 3, 4, 4]\<rparr> Map.empty
       = (Inl (ExternalError ''no model''), broken_wrapper\<lparr>calls := [BuildCall]\<rparr>)"
proof -
  have bf: "build_model fresh_wrapper = Inr ()"
    by (simp add: build_model_def fresh_wrapper_def)
  have bb: "build_model broken_wrapper = Inl (ExternalError ''no model'')"
    by (simp add: build_model_def broken_wrapper_def)
  have cf: "calls fresh_wrapper = []" and cb: "calls broken_wrapper = []"
    by (simp_all add: fresh_wrapper_def broken_wrapper_def)
  have mf: "model_fit null_keras = (\<lambda>m x y kw. (Inr (), m))"
    by (simp add: null_keras_def)
  have two: "check_y_shape \<lparr>shape = [2, 2], data = [3, 3, 4, 4]\<rparr>
               = Inr \<lparr>shape = [2, 2], data = [3, 3, 4, 4]\<rparr>"
    using check_two_dim_other[of "\<lparr>shape = [2, 2], data = [3, 3, 4, 4]\<rparr>" 2 2] by simp
  note rank3 = fit_rejects_before_build[where y = "\<lparr>shape = [1, 1, 1], data = [3]\<rparr>"
        and e = "IncompatibleShape [1, 1, 1]" and K = null_keras and w = fresh_wrapper and x = "()" and kw = Map.empty
        and y' = "\<lparr>shape = [1, 1, 1], data = [3]\<rparr>" and e' = "ExternalError ''no model''" and m = "()" and n = 0 and c = 0]
  note rank0 = fit_rejects_before_build[where y = "\<lparr>shape = [], data = [7]\<rparr>"
        and e = "IncompatibleShape []" and K = null_keras and w = fresh_wrapper and x = "()" and kw = Map.empty
        and y' = "\<lparr>shape = [], data = [7]\<rparr>" and e' = "ExternalError ''no model''" and m = "()" and n = 0 and c = 0]
  note cols3 = fit_rejects_before_build[where y = "\<lparr>shape = [1, 3], data = [3, 4, 5]\<rparr>"
        and e = "IncompatibleShape []" and K = null_keras and w = fresh_wrapper and x = "()" and kw = Map.empty
        and y' = "\<lparr>shape = [1, 3], data = [3, 4, 5]\<rparr>" and e' = "ExternalError ''no model''" and m = "()" and n = 1 and c = 3]
  note flat = fit_rejects_before_build[where y = "\<lparr>shape = [2], data = [3, 4]\<rparr>"
        and e = "IncompatibleShape []" and K = null_keras and w = fresh_wrapper and x = "()" and kw = Map.empty
        and y' = "\<lparr>shape = [2, 2, 1], data = [3, 3, 4, 4]\<rparr>" and e' = "ExternalError ''no model''" and m = "()" and n = 2 and c = 0]
  note col1 = fit_rejects_before_build[where y = "\<lparr>shape = [2, 1], data = [3, 4]\<rparr>"
        and e = "IncompatibleShape []" and K = null_keras and w = fresh_wrapper and x = "()" and kw = Map.empty
        and y' = "\<lparr>shape = [2, 2, 1], data = [3, 3, 4, 4]\<rparr>" and e' = "ExternalError ''no model''" and m = "()" and n = 2 and c = 1]
  note cols2 = fit_rejects_before_build[where y = "\<lparr>shape = [2, 2], data = [3, 3, 4, 4]\<rparr>"
        and e = "IncompatibleShape []" and K = null_keras and w = fresh_wrapper and x = "()" and kw = Map.empty
        and y' = "\<lparr>shape = [2, 2], data = [3, 3, 4, 4]\<rparr>" and e' = "ExternalError ''no model''" and m = "()" and n = 2 and c = 2]
  note broken = fit_rejects_before_build[where y = "\<lparr>shape = [2, 2], data = [3, 3, 4, 4]\<rparr>"
        and e = "IncompatibleShape []" and K = null_keras and w = broken_wrapper and x = "()" and kw = Map.empty
        and y' = "\<lparr>shape = [2, 2], data = [3, 3, 4, 4]\<rparr>" and e' = "ExternalError ''no model''" and m = "()" and n = 2 and c = 2]
  have a1: "check_y_shape \<lparr>shape = [1, 1, 1], data = [3]\<rparr> = Inl (IncompatibleShape [1, 1, 1])
       \<and> wrapper_fit null_keras fresh_wrapper () \<lparr>shape = [1, 1, 1], data = [3]\<rparr> Map.empty
           = (Inl (IncompatibleShape [1, 1, 1]), fresh_wrapper)"
    using rank3 by (simp add: ndim_def)
  have a2: "wrapper_fit null_keras fresh_wrapper () \<lparr>shape = [], data = [7]\<rparr> Map.empty
       = (Inl (IncompatibleShape []), fresh_wrapper)"
    using rank0 by (simp add: ndim_def)
  have a3: "calls (snd (wrapper_fit null_keras fresh_wrapper ()
                    \<lparr>shape = [1, 3], data = [3, 4, 5]\<rparr> Map.empty))
       = [BuildCall, FitCall \<lparr>shape = [1, 3], data = [3, 4, 5]\<rparr>]"
    using cols3 bf cf by simp
  have a4: "calls (snd (wrapper_fit null_keras fresh_wrapper ()
                    \<lparr>shape = [2], data = [3, 4]\<rparr> Map.empty))
       = [BuildCall, FitCall \<lparr>shape = [2, 2, 1], data = [3, 3, 4, 4]\<rparr>]"
    using flat bf cf by (simp add: wf_array_def)
  have a5: "calls (snd (wrapper_fit null_keras fresh_wrapper ()
                    \<lparr>shape = [2, 1], data = [3, 4]\<rparr> Map.empty))
       = [BuildCall, FitCall \<lparr>shape = [2, 2, 1], data = [3, 3, 4, 4]\<rparr>]"
    using col1 bf cf by (simp add: wf_array_def)
  have a6: "wrapper_fit null_keras fresh_wrapper () \<lparr>shape = [2, 2], data = [3, 3, 4, 4]\<rparr> Map.empty
       = (Inr (),
          fresh_wrapper
            \<lparr>calls := [BuildCall, FitCall \<lparr>shape = [2, 2], data = [3, 3, 4, 4]\<rparr>],
             keras_model := Some ()\<rparr>)"
    using cols2 bf cf two by (simp add: mf)
  have a7: "wrapper_fit null_keras broken_wrapper () \<lparr>shape = [2, 2], data = [3, 3, 4, 4]\<rparr> Map.empty
       = (Inl (ExternalError ''no model''), broken_wrapper\<lparr>calls := [BuildCall]\<rparr>)"
    using broken bb cb two by simp
  show ?thesis
    using a1 a2 a3 a4 a5 a6 a7 bf bb cf by (simp add: ndim_def)
qed

text \<open>
  Claim C5 as stated fails: a target of two rows and three columns is neither flat
  nor two-column, and \<^verbatim>\<open>fit\<close> does not raise on it: the model is built and fitted
  on the three-column target as it is.
\<close>

theorem fit_three_columns_counterexample:
  "wrapper_fit null_keras fresh_wrapper () \<lparr>shape = [2, 3], data = [1, 2, 3, 4, 5, 6]\<rparr> Map.empty
   = (Inr (),
      fresh_wrapper
        \<lparr>keras_model := Some (),
         calls := [BuildCall, FitCall \<lparr>shape = [2, 3], data = [1, 2, 3, 4, 5, 6]\<rparr>]\<rparr>)"
  by (simp add: wrapper_fit_def build_model_def check_y_shape_def ndim_def Let_def
      null_keras_def fresh_wrapper_def)

section \<open>The base model\<close>

text \<open>
  Claim C6, as amended. Every call of the loss that \<^verbatim>\<open>score\<close> makes takes
  \<^verbatim>\<open>lambda_\<close> unchanged from the parameters of the model (\<^verbatim>\<open>None\<close> when they have
  none), and takes 160.0 for \<^verbatim>\<open>soften\<close> and 0.05 for \<^verbatim>\<open>alpha\<close>, whatever the
  parameters say: entries \<^verbatim>\<open>soften\<close> and \<^verbatim>\<open>alpha\<close> of the configuration change
  nothing in the report.
\<close>

theorem score_loss_arguments:
  "score M self y_true y_pred y_pi_low y_pi_high ''loss'' =
     Some (piven_loss_numpy M y_true y_pred y_pi_low y_pi_high
             (dict_get (params self) ''lambda_'') 160 0.05)
   \<and> score M (self\<lparr>params := (params self)(''lambda_'' \<mapsto> l)\<rparr>)
        y_true y_pred y_pi_low y_pi_high ''loss'' =
     Some (piven_loss_numpy M y_true y_pred y_pi_low y_pi_high l 160 0.05)
   \<and> score M (self\<lparr>params := (params self)(''soften'' \<mapsto> s, ''alpha'' \<mapsto> a)\<rparr>)
        y_true y_pred y_pi_low y_pi_high
     = score M self y_true y_pred y_pi_low y_pi_high"
  by (simp add: score_def dict_get_def)

text \<open>
  Claim C6 as stated fails: with \<^verbatim>\<open>soften = 100\<close> and \<^verbatim>\<open>alpha = 0.1\<close> configured,
  the loss is called with 160 and 0.05.
\<close>

theorem score_ignores_soften_counterexample:
  "params configured ''soften'' = Some (PyFloat 100)
   \<and> score soften_probe configured no_rows no_rows no_rows no_rows ''loss'' = Some 160
   \<and> params configured ''alpha'' = Some (PyFloat 0.1)
   \<and> score alpha_probe configured no_rows no_rows no_rows no_rows ''loss'' = Some 0.05"
  by (simp add: score_def configured_def init_def soften_probe_def alpha_probe_def)

text \<open>
  Claim C7. \<^verbatim>\<open>predict\<close> raises \<^verbatim>\<open>NotFittedError\<close> when there is no model. When
  there is one, the test does not fire: the result is what the model's own
  \<^verbatim>\<open>predict\<close> gives, so \<^verbatim>\<open>NotFittedError\<close> is not raised unless the model itself
  raises it.
\<close>

theorem base_predict_not_fitted:
  "(model self = None \<longrightarrow> base_predict A self x r = Inl NotFittedError)
   \<and> (model self = Some m \<longrightarrow> base_predict A self x r = inner_predict A m x r)
   \<and> (model self = Some m \<and> inner_predict A m x r \<noteq> Inl NotFittedError
        \<longrightarrow> base_predict A self x r \<noteq> Inl NotFittedError)"
  by (simp add: base_predict_def)

theorem base_predict_not_fitted_witness:
  "model (init Map.empty :: unit base_model) = None
   \<and> base_predict const_inner (init Map.empty) () True = Inl NotFittedError
   \<and> model \<lparr>params = Map.empty, model = Some ()\<rparr> = Some ()
   \<and> inner_predict const_inner () () True \<noteq> Inl NotFittedError
   \<and> base_predict const_inner \<lparr>params = Map.empty, model = Some ()\<rparr> () True
       = Inr (Point no_rows)"
  using base_predict_not_fitted[of "init Map.empty" const_inner "()" True "()"]
    base_predict_not_fitted[of "\<lparr>params = Map.empty, model = Some ()\<rparr>" const_inner
      "()" True "()"]
  by (simp add: init_def const_inner_def)

text \<open>
  Claim C8. The constructor of the loss raises \<^verbatim>\<open>InvalidHyperparameter\<close> exactly
  when \<^verbatim>\<open>lambda_\<close> is missing, \<^verbatim>\<open>alpha\<close> is not a number inside (0,1), or \<^verbatim>\<open>soften\<close>
  is not a finite positive number. It decides on the hyperparameters alone, before
  any batch exists. \<^verbatim>\<open>alpha = 0\<close>, \<^verbatim>\<open>alpha = 1\<close>, \<^verbatim>\<open>soften = 0\<close> and \<^verbatim>\<open>soften = -5\<close>
  are rejected; \<^verbatim>\<open>alpha = 0.05\<close> with \<^verbatim>\<open>soften = 160.0\<close> is accepted.
\<close>

theorem piven_loss_validation:
  "(piven_loss lambda_in soften alpha = Inl InvalidHyperparameter \<longleftrightarrow>
      lambda_in = None
      \<or> \<not> (\<exists>a. alpha = Finite a \<and> 0 < a \<and> a < 1)
      \<or> \<not> (\<exists>s. soften = Finite s \<and> 0 < s))
   \<and> piven_loss (Some l) (Finite 160.0) (Finite 0) = Inl InvalidHyperparameter
   \<and> piven_loss (Some l) (Finite 160.0) (Finite 1) = Inl InvalidHyperparameter
   \<and> piven_loss (Some l) (Finite 0) (Finite 0.05) = Inl InvalidHyperparameter
   \<and> piven_loss (Some l) (Finite (- 5)) (Finite 0.05) = Inl InvalidHyperparameter
   \<and> piven_loss None (Finite 160.0) (Finite 0.05) = Inl InvalidHyperparameter
   \<and> piven_loss (Some l) (Finite 160.0) (Finite 0.05) =
       Inr \<lparr>cfg_lambda = l, cfg_soften = 160.0, cfg_alpha = 0.05\<rparr>"
  by (auto simp: piven_loss_def split: option.splits pyfloat.splits)

theorem piven_loss_validation_witness:
  "piven_loss (Some (Finite 15)) PosInf (Finite 0.05) = Inl InvalidHyperparameter
   \<and> piven_loss (Some (Finite 15)) (Finite 160.0) NaN = Inl InvalidHyperparameter
   \<and> piven_loss (Some (Finite 15)) (Finite 160.0) (Finite 0.05) \<noteq> Inl InvalidHyperparameter"
  using piven_loss_validation[of "Some (Finite 15)" PosInf "Finite 0.05" "Finite 15"]
    piven_loss_validation[of "Some (Finite 15)" "Finite 160.0" NaN "Finite 15"]
    piven_loss_validation[of "Some (Finite 15)" "Finite 160.0" "Finite 0.05" "Finite 15"]
  by simp

text \<open>
  Claim C9. When there is no model, \<^verbatim>\<open>save\<close> raises \<^verbatim>\<open>NotFittedError\<close> and leaves
  the file system as it was: neither the file of the parameters nor the model is
  written. With a model and an existing directory, the file of the parameters is
  written before the model is saved.
\<close>

theorem save_not_fitted_atomic:
  "(model self = None \<longrightarrow> base_save S self path fs = (Inl NotFittedError, fs))
   \<and> (model self = Some m \<and> path \<in> dirs fs \<longrightarrow>
        snd (base_save S self path fs) =
          snd (save_piven_model S m path
                 (fs\<lparr>files := (files fs)(path @ ''/experiment_params.json''
                                          \<mapsto> json_dumps S (params self))\<rparr>)))"
  by (auto simp: base_save_def Let_def split: prod.splits option.splits)

theorem save_not_fitted_atomic_witness:
  "model (init Map.empty :: unit base_model) = None
   \<and> base_save null_storage (init Map.empty) ''out'' out_dir = (Inl NotFittedError, out_dir)
   \<and> files (snd (base_save null_storage \<lparr>params = Map.empty, model = Some ()\<rparr> ''out'' out_dir))
        ''out/experiment_params.json'' = Some ''{}''"
  using save_not_fitted_atomic[of "init Map.empty" null_storage "''out''" out_dir "()"]
    save_not_fitted_atomic[of "\<lparr>params = Map.empty, model = Some ()\<rparr>" null_storage
      "''out''" out_dir "()"]
  by (simp add: init_def null_storage_def out_dir_def)

text \<open>
  Claim C10. \<^verbatim>\<open>fit\<close> of the base model does not test whether there is a model. On
  a model just constructed, and whenever \<^verbatim>\<open>self.model\<close> is \<^verbatim>\<open>None\<close>, it fails with
  \<^verbatim>\<open>AttributeError\<close>, not with the \<^verbatim>\<open>NotFittedError\<close> that \<^verbatim>\<open>predict\<close> and \<^verbatim>\<open>save\<close>
  raise in the same state.
\<close>

theorem base_fit_no_fitted_check:
  "base_fit A (init model_params) x y kw = Inl AttributeError
   \<and> (model self = None \<longrightarrow>
        base_fit A self x y kw = Inl AttributeError
        \<and> base_fit A self x y kw \<noteq> Inl NotFittedError
        \<and> base_predict A self x r = Inl NotFittedError
        \<and> fst (base_save S self path fs) = Inl NotFittedError)"
  by (simp add: base_fit_def base_predict_def base_save_def init_def)

theorem base_fit_no_fitted_check_witness:
  "model (init Map.empty :: unit base_model) = None
   \<and> base_fit const_inner (init Map.empty) () no_rows Map.empty = Inl AttributeError
   \<and> base_predict const_inner (init Map.empty) () True = Inl NotFittedError
   \<and> fst (base_save null_storage (init Map.empty) ''out'' out_dir) = Inl NotFittedError"
  using base_fit_no_fitted_check[of const_inner Map.empty "()" no_rows Map.empty
      "init Map.empty" True null_storage "''out''" out_dir]
  by (simp add: init_def)

end
